theory Spec2Isabelle
  imports Main "HOL-Library.Sublist"
begin

section \<open>Go values\<close>

text \<open>
  A Go \<^verbatim>\<open>string\<close> is a sequence of bytes and \<^verbatim>\<open>len\<close> counts bytes, so a Go string is a
  \<^typ>\<open>string\<close> here (a list of 8-bit \<^typ>\<open>char\<close>s) and a "character" of the diff is one
  byte of it.

  A Go \<^verbatim>\<open>error\<close> is a value with a message. The program builds its own errors with
  \<^verbatim>\<open>fmt.Errorf\<close>, either from a fixed text or by wrapping a cause with
  \<^verbatim>\<open>"<prefix>: %w"\<close>; every other error comes from outside the package (os/exec, io,
  the output helper).
\<close>

datatype error =
    Errorf string
  | Wrap string error
  | External string

fun error_message :: "error \<Rightarrow> string" where
  "error_message (Errorf m) = m"
| "error_message (Wrap p e) = p @ '': '' @ error_message e"
| "error_message (External m) = m"

section \<open>The parts of the Go standard library the commands call\<close>

subsection \<open>strings.Join\<close>

fun Join :: "string list \<Rightarrow> string \<Rightarrow> string" where
  "Join [] sep = []"
| "Join [x] sep = x"
| "Join (x # y # ys) sep = x @ sep @ Join (y # ys) sep"

subsection \<open>strings.ToLower and strings.TrimSpace\<close>

text \<open>
  Both functions have a fast path for strings of ASCII bytes, which is modelled in full.
  On a byte \<^verbatim>\<open>>= utf8.RuneSelf\<close> (0x80) they hand over to the Unicode routines
  \<^verbatim>\<open>strings.Map(unicode.ToLower, s)\<close>, \<^verbatim>\<open>strings.TrimFunc(s, unicode.IsSpace)\<close> and
  \<^verbatim>\<open>strings.TrimRightFunc(s, unicode.IsSpace)\<close>. Those depend on the Unicode tables and are
  parameters of the model: every theorem below holds whatever they compute.
\<close>

record unicode =
  MapToLower :: "string \<Rightarrow> string"
  TrimFuncIsSpace :: "string \<Rightarrow> string"
  TrimRightFuncIsSpace :: "string \<Rightarrow> string"

definition isASCII :: "char \<Rightarrow> bool" where
  "isASCII c = ((of_char c :: nat) < 128)"

definition isUpper :: "char \<Rightarrow> bool" where
  "isUpper c = (65 \<le> (of_char c :: nat) \<and> (of_char c :: nat) \<le> 90)"

definition lowerByte :: "char \<Rightarrow> char" where
  "lowerByte c = (if isUpper c then char_of ((of_char c :: nat) + 32) else c)"

definition ToLower :: "unicode \<Rightarrow> string \<Rightarrow> string" where
  "ToLower U s =
     (if list_all isASCII s
      then (if \<not> list_ex isUpper s then s else map lowerByte s)
      else MapToLower U s)"

text \<open>The table \<^verbatim>\<open>asciiSpace\<close>: tab, line feed, vertical tab, form feed, carriage return, space.\<close>

definition asciiSpace :: "char \<Rightarrow> bool" where
  "asciiSpace c =
     (c = CHR 0x09 \<or> c = CHR 0x0A \<or> c = CHR 0x0B \<or> c = CHR 0x0C \<or> c = CHR 0x0D \<or> c = CHR 0x20)"

text \<open>
  The second loop of \<^verbatim>\<open>TrimSpace\<close> walks from the end of the string; it is written on the
  reversed string.
\<close>

fun trimRightRev :: "unicode \<Rightarrow> string \<Rightarrow> string" where
  "trimRightRev U [] = []"
| "trimRightRev U (c # cs) =
     (if \<not> isASCII c then rev (TrimRightFuncIsSpace U (rev (c # cs)))
      else if asciiSpace c then trimRightRev U cs
      else c # cs)"

definition trimRight :: "unicode \<Rightarrow> string \<Rightarrow> string" where
  "trimRight U s = rev (trimRightRev U (rev s))"

fun TrimSpace :: "unicode \<Rightarrow> string \<Rightarrow> string" where
  "TrimSpace U [] = []"
| "TrimSpace U (c # cs) =
     (if \<not> isASCII c then TrimFuncIsSpace U (c # cs)
      else if asciiSpace c then TrimSpace U cs
      else trimRight U (c # cs))"

subsection \<open>Standard input: bufio.Reader.ReadString and bufio.Scanner\<close>

text \<open>
  Standard input is the finite sequence of bytes that can be read before the stream ends,
  and the error that ends it (\<^verbatim>\<open>io.EOF\<close> or a read error).

  \<^verbatim>\<open>ReadString(delim)\<close> returns the bytes up to and including the first delimiter; when
  the stream ends first it returns the bytes read so far together with the error.
\<close>

fun ReadString :: "char \<Rightarrow> string \<Rightarrow> error \<Rightarrow> string \<times> error option" where
  "ReadString delim [] e = ([], Some e)"
| "ReadString delim (c # cs) e =
     (if c = delim then ([c], None)
      else (c # fst (ReadString delim cs e), snd (ReadString delim cs e)))"

text \<open>
  A \<^verbatim>\<open>bufio.Scanner\<close> with the default split function \<^verbatim>\<open>ScanLines\<close>: each token is a line
  without its line feed and without one trailing carriage return (\<^verbatim>\<open>dropCR\<close>); a last
  line that is not terminated is a token when it is not empty; the scanner stops with
  \<^verbatim>\<open>ErrTooLong\<close> when 65536 bytes (\<^verbatim>\<open>MaxScanTokenSize\<close>) hold no line feed. \<open>cur\<close> is the
  part of the current line scanned so far.
\<close>

definition dropCR :: "string \<Rightarrow> string" where
  "dropCR d = (if d \<noteq> [] \<and> last d = CHR 0x0D then butlast d else d)"

definition MaxScanTokenSize :: nat where
  "MaxScanTokenSize = 65536"

fun scan :: "string \<Rightarrow> string \<Rightarrow> string list" where
  "scan cur [] = (if cur = [] then [] else [dropCR cur])"
| "scan cur (c # cs) =
     (if c = CHR 0x0A then dropCR cur # scan [] cs
      else if MaxScanTokenSize \<le> length cur + 1 then []
      else scan (cur @ [c]) cs)"

definition scanLines :: "string \<Rightarrow> string list" where
  "scanLines input = scan [] input"

section \<open>The environment of one invocation\<close>

text \<open>
  What the process finds around it: the executables on the path (\<^verbatim>\<open>exec.LookPath\<close>, \<open>None\<close>
  for \<^verbatim>\<open>err == nil\<close>), what a subprocess returns (\<^verbatim>\<open>Cmd.Output\<close>: the captured standard
  output or an error, which a non-zero exit is; \<^verbatim>\<open>Cmd.Run\<close>: an error or none), standard
  input, and the output helper of the SDK (\<^verbatim>\<open>out.Resolve\<close>, \<^verbatim>\<open>out.Is(output.OutputJSON)\<close>,
  \<^verbatim>\<open>output.JSON\<close>), which is not part of this repository.
\<close>

record env =
  LookPath :: "string \<Rightarrow> error option"
  Output :: "string \<Rightarrow> string list \<Rightarrow> error + string"
  Run :: "string \<Rightarrow> string list \<Rightarrow> error option"
  stdin :: string
  stdin_end :: error
  out_Resolve :: "error option"
  out_IsJSON :: bool
  output_JSON :: "(string \<times> string) list \<Rightarrow> error option"

text \<open>What an invocation does to the outside, in order.\<close>

datatype event =
    Probe string
  | Exec string "string list"
  | Print string
  | ReadStdin
  | WriteJSON "(string \<times> string) list"

section \<open>The provider dispatcher\<close>

definition askClaude :: "unicode \<Rightarrow> env \<Rightarrow> string \<Rightarrow> string \<Rightarrow> (error + string) \<times> event list" where
  "askClaude U E prompt model =
     (let args = [''--print''] @ (if model \<noteq> [] then [''--model'', model] else []) @ [prompt]
      in (case Output E ''claude'' args of
            Inl err \<Rightarrow> Inl (Wrap ''claude failed'' err)
          | Inr out \<Rightarrow> Inr (TrimSpace U out),
          [Exec ''claude'' args]))"

definition askCodex :: "unicode \<Rightarrow> env \<Rightarrow> string \<Rightarrow> string \<Rightarrow> (error + string) \<times> event list" where
  "askCodex U E prompt model =
     (let args = [''ask''] @ (if model \<noteq> [] then [''--model'', model] else []) @ [prompt]
      in (case Output E ''codex'' args of
            Inl err \<Rightarrow> Inl (Wrap ''codex failed'' err)
          | Inr out \<Rightarrow> Inr (TrimSpace U out),
          [Exec ''codex'' args]))"

definition askAI :: "unicode \<Rightarrow> env \<Rightarrow> string \<Rightarrow> string \<Rightarrow> (error + string) \<times> event list" where
  "askAI U E prompt model =
     (if LookPath E ''claude'' = None
      then (fst (askClaude U E prompt model), Probe ''claude'' # snd (askClaude U E prompt model))
      else if LookPath E ''codex'' = None
      then (fst (askCodex U E prompt model),
            Probe ''claude'' # Probe ''codex'' # snd (askCodex U E prompt model))
      else (Inl (Errorf ''no AI provider available (install claude or codex CLI)''),
            [Probe ''claude'', Probe ''codex'']))"

section \<open>The commit command\<close>

text \<open>Lines 62 to 65: the diff as it goes into the prompt.\<close>

definition truncateDiff :: "string \<Rightarrow> string" where
  "truncateDiff diff =
     (if length diff > 10000 then take 10000 diff @ ''\<newline>... (truncated)'' else diff)"

text \<open>Lines 68 to 76: the template, with the diff in the place of \<^verbatim>\<open>%s\<close>.\<close>

definition commitPrompt :: "string \<Rightarrow> string" where
  "commitPrompt diff =
     ''Generate a concise git commit message for the following diff.\<newline>'' @
     ''Use conventional commit format (feat:, fix:, docs:, refactor:, etc.).\<newline>'' @
     ''Keep the message under 72 characters for the subject line.\<newline>'' @
     ''Include a brief body if needed.\<newline>'' @
     ''\<newline>'' @
     ''Diff:\<newline>'' @
     diff @
     ''\<newline>\<newline>Respond with ONLY the commit message, no explanations.''"

text \<open>Lines 92 to 114: the confirmation and the commit, for the message \<open>message\<close>.\<close>

definition confirm :: "unicode \<Rightarrow> env \<Rightarrow> string \<Rightarrow> error option \<times> event list" where
  "confirm U E message =
     (let asked = [Print (''\<newline>Suggested commit message:\<newline>'' @ message @ ''\<newline>\<newline>''),
                   Print ''Use this message? [Y/n]: '', ReadStdin];
          response = fst (ReadString (CHR 0x0A) (stdin E) (stdin_end E));
          response = TrimSpace U (ToLower U response)
      in if response \<noteq> [] \<and> response \<noteq> ''y'' \<and> response \<noteq> ''yes''
         then (None, asked @ [Print ''Commit cancelled.\<newline>''])
         else (case Run E ''git'' [''commit'', ''-m'', message] of
                 Some err \<Rightarrow> Some (Wrap ''git commit failed'' err)
               | None \<Rightarrow> None,
               asked @ [Exec ''git'' [''commit'', ''-m'', message]]))"

text \<open>
  The \<^verbatim>\<open>RunE\<close> of \<^verbatim>\<open>newCommitCmd\<close>, for the values of the flags \<^verbatim>\<open>--model\<close> and
  \<^verbatim>\<open>--dry-run\<close>: the error it returns (\<open>None\<close> for \<^verbatim>\<open>nil\<close>) and what it did.
\<close>

definition commitRunE :: "unicode \<Rightarrow> env \<Rightarrow> string \<Rightarrow> bool \<Rightarrow> error option \<times> event list" where
  "commitRunE U E model dryRun =
     (let diffCmd = Exec ''git'' [''diff'', ''--cached'']
      in case Output E ''git'' [''diff'', ''--cached''] of
           Inl err \<Rightarrow> (Some (Wrap ''git diff failed'' err), [diffCmd])
         | Inr diffOutput \<Rightarrow>
             if length diffOutput = 0 then (Some (Errorf ''no staged changes''), [diffCmd])
             else
               let prompt = commitPrompt (truncateDiff diffOutput);
                   asking = [diffCmd, Print ''Generating commit message...\<newline>''] @
                            snd (askAI U E prompt model)
               in (case fst (askAI U E prompt model) of
                     Inl err \<Rightarrow> (Some (Wrap ''AI request failed'' err), asking)
                   | Inr answer \<Rightarrow>
                       let message = TrimSpace U answer
                       in if dryRun
                          then (None,
                                asking @ [Print (''\<newline>Suggested commit message:\<newline>'' @
                                                 message @ ''\<newline>'')])
                          else (fst (confirm U E message), asking @ snd (confirm U E message))))"

section \<open>The ask command\<close>

text \<open>Lines 144 to 155: the question, from the arguments or from standard input.\<close>

definition question :: "string list \<Rightarrow> string \<Rightarrow> string" where
  "question args input =
     (if length args > 0 then Join args '' '' else Join (scanLines input) ''\<newline>'')"

definition askRunE :: "unicode \<Rightarrow> env \<Rightarrow> string list \<Rightarrow> string \<Rightarrow> error option \<times> event list" where
  "askRunE U E args model =
     (case out_Resolve E of
        Some err \<Rightarrow> (Some err, [])
      | None \<Rightarrow>
          let reading = (if length args > 0 then [] else [ReadStdin]);
              q = question args (stdin E)
          in if TrimSpace U q = [] then (Some (Errorf ''no question provided''), reading)
             else
               let asking = reading @ snd (askAI U E q model)
               in (case fst (askAI U E q model) of
                     Inl err \<Rightarrow> (Some err, asking)
                   | Inr response \<Rightarrow>
                       if out_IsJSON E
                       then (output_JSON E [(''question'', q), (''response'', response)],
                             asking @ [WriteJSON [(''question'', q), (''response'', response)]])
                       else (None, asking @ [Print (response @ ''\<newline>'')])))"

text \<open>
  Modelled from the spec: the entry point that turns the error of a command into the exit
  status of the process is not among the sources. Section 7 of the specification says that
  every failure is surfaced as a non-zero exit and that a run without error exits with
  zero.
\<close>

definition exit_status :: "error option \<Rightarrow> nat" where
  "exit_status r = (case r of None \<Rightarrow> 0 | Some err \<Rightarrow> 1)"

section \<open>A concrete machine\<close>

text \<open>
  An environment to run the commands in: \<open>diff\<close> is what \<^verbatim>\<open>git diff --cached\<close> returns,
  \<open>installed\<close> lists the executables on the path, \<open>input\<close> is standard input; every provider
  answers with the same message and \<^verbatim>\<open>git commit\<close> succeeds. The Unicode routines of \<open>lib0\<close>
  are never reached on ASCII text.
\<close>

definition lib0 :: unicode where
  "lib0 = \<lparr>MapToLower = (\<lambda>s. s), TrimFuncIsSpace = (\<lambda>s. s), TrimRightFuncIsSpace = (\<lambda>s. s)\<rparr>"

definition machine :: "(error + string) \<Rightarrow> string list \<Rightarrow> string \<Rightarrow> env" where
  "machine diff installed input =
     \<lparr>LookPath = (\<lambda>name. if name \<in> set installed then None
                            else Some (External ''executable file not found in $PATH'')),
      Output = (\<lambda>name args. if name = ''git'' then diff else Inr ''feat: add parser\<newline>''),
      Run = (\<lambda>name args. None),
      stdin = input,
      stdin_end = External ''EOF'',
      out_Resolve = None,
      out_IsJSON = False,
      output_JSON = (\<lambda>m. None)\<rparr>"

text \<open>
  A standard input of three lines, the second of which fills the scanner's buffer
  (\<^verbatim>\<open>MaxScanTokenSize\<close> bytes) without a line feed.
\<close>

definition long_input :: string where
  "long_input = ''first\<newline>'' @ replicate 65536 (CHR ''a'') @ ''\<newline>last\<newline>''"

section \<open>Properties of the library functions\<close>

lemma asciiSpace_isASCII: "asciiSpace c \<Longrightarrow> isASCII c"
  by (auto simp add: asciiSpace_def isASCII_def)

lemma TrimSpace_all_space: "\<forall>c\<in>set s. asciiSpace c \<Longrightarrow> TrimSpace U s = []"
  by (induction s) (auto simp add: asciiSpace_isASCII)

lemma trimRightRev_nonempty:
  "list_all isASCII xs \<Longrightarrow> isASCII c \<Longrightarrow> \<not> asciiSpace c \<Longrightarrow> trimRightRev U (xs @ [c]) \<noteq> []"
  by (induction xs) auto

lemma TrimSpace_empty_iff:
  "list_all isASCII s \<Longrightarrow> TrimSpace U s = [] \<longleftrightarrow> (\<forall>c\<in>set s. asciiSpace c)"
proof (induction s)
  case Nil
  then show ?case by simp
next
  case (Cons c cs)
  have "trimRight U (c # cs) \<noteq> []" if "\<not> asciiSpace c"
    using that Cons.prems trimRightRev_nonempty [of "rev cs" c U]
    by (simp add: trimRight_def list_all_iff)
  with Cons show ?case by auto
qed

lemma ReadString_error: "snd (ReadString delim s e) \<noteq> None \<Longrightarrow> ReadString delim s e = (s, Some e)"
  by (induction s) (auto split: if_splits simp add: prod_eq_iff)

lemma scan_append:
  "CHR 0x0A \<notin> set l \<Longrightarrow> length cur + length l < MaxScanTokenSize \<Longrightarrow>
   scan cur (l @ rest) = scan (cur @ l) rest"
  by (induction l arbitrary: cur) auto

lemma scan_line:
  assumes "CHR 0x0A \<notin> set l" and "length l < MaxScanTokenSize"
  shows "scan [] (l @ CHR 0x0A # rest) = dropCR l # scan [] rest"
  using scan_append [of l "[]" "CHR 0x0A # rest"] assms by simp

lemma scanLines_terminated:
  "\<forall>l\<in>set ls. CHR 0x0A \<notin> set l \<and> length l < MaxScanTokenSize \<Longrightarrow>
   scanLines (concat (map (\<lambda>l. l @ [CHR 0x0A]) ls)) = map dropCR ls"
  unfolding scanLines_def
  by (induction ls) (simp_all add: scan_line)

lemma scan_too_long:
  "CHR 0x0A \<notin> set l \<Longrightarrow> length cur < MaxScanTokenSize \<Longrightarrow>
   MaxScanTokenSize \<le> length cur + length l \<Longrightarrow> scan cur (l @ rest) = []"
  by (induction l arbitrary: cur) auto

lemma scan_last_line:
  "CHR 0x0A \<notin> set l \<Longrightarrow> length cur + length l < MaxScanTokenSize \<Longrightarrow>
   scan cur l = (if cur @ l = [] then [] else [dropCR (cur @ l)])"
  using scan_append [of l cur "[]"] by simp

lemma scan_lines_then:
  "\<forall>l\<in>set ls. CHR 0x0A \<notin> set l \<and> length l < MaxScanTokenSize \<Longrightarrow>
   scan [] (concat (map (\<lambda>l. l @ [CHR 0x0A]) ls) @ rest) = map dropCR ls @ scan [] rest"
  by (induction ls) (simp_all add: scan_line)

lemma scanLines_unterminated:
  assumes "\<forall>l\<in>set ls. CHR 0x0A \<notin> set l \<and> length l < MaxScanTokenSize"
    and "CHR 0x0A \<notin> set t" and "t \<noteq> []" and "length t < MaxScanTokenSize"
  shows "scanLines (concat (map (\<lambda>l. l @ [CHR 0x0A]) ls) @ t) = map dropCR ls @ [dropCR t]"
  using assms(3) scan_last_line [of t "[]"] assms(2,4)
  by (simp add: scanLines_def scan_lines_then [OF assms(1)])

lemma scanLines_too_long:
  assumes "\<forall>l\<in>set ls. CHR 0x0A \<notin> set l \<and> length l < MaxScanTokenSize"
    and "CHR 0x0A \<notin> set t" and "MaxScanTokenSize \<le> length t"
  shows "scanLines (concat (map (\<lambda>l. l @ [CHR 0x0A]) ls) @ t @ rest) = map dropCR ls"
  using scan_too_long [of t "[]" rest] assms(2,3)
  by (simp add: scanLines_def scan_lines_then [OF assms(1)] MaxScanTokenSize_def)

section \<open>What the commands do, step by step\<close>

lemma askAI_events:
  "snd (askAI U E p m) =
     (if LookPath E ''claude'' = None
      then [Probe ''claude'',
            Exec ''claude'' ([''--print''] @ (if m \<noteq> [] then [''--model'', m] else []) @ [p])]
      else if LookPath E ''codex'' = None
      then [Probe ''claude'', Probe ''codex'',
            Exec ''codex'' ([''ask''] @ (if m \<noteq> [] then [''--model'', m] else []) @ [p])]
      else [Probe ''claude'', Probe ''codex''])"
  by (simp add: askAI_def askClaude_def askCodex_def Let_def)

lemma askAI_no_git: "Exec ''git'' args \<notin> set (snd (askAI U E p m))"
  by (simp add: askAI_events)

lemma askAI_no_read: "ReadStdin \<notin> set (snd (askAI U E p m))"
  by (simp add: askAI_events)

lemma askAI_stdin: "askAI U (E\<lparr>stdin := s, stdin_end := e\<rparr>) p m = askAI U E p m"
  by (simp add: askAI_def askClaude_def askCodex_def)

lemma confirm_result:
  "confirm U E message =
     (let r = TrimSpace U (ToLower U (fst (ReadString (CHR 0x0A) (stdin E) (stdin_end E))));
          asked = [Print (''\<newline>Suggested commit message:\<newline>'' @ message @ ''\<newline>\<newline>''),
                   Print ''Use this message? [Y/n]: '', ReadStdin]
      in if r = [] \<or> r = ''y'' \<or> r = ''yes''
         then (map_option (Wrap ''git commit failed'') (Run E ''git'' [''commit'', ''-m'', message]),
               asked @ [Exec ''git'' [''commit'', ''-m'', message]])
         else (None, asked @ [Print ''Commit cancelled.\<newline>'']))"
  by (auto simp add: confirm_def Let_def split: option.splits)

lemma commitRunE_interactive:
  assumes "Output E ''git'' [''diff'', ''--cached''] = Inr d" and "d \<noteq> []"
    and "fst (askAI U E (commitPrompt (truncateDiff d)) model) = Inr a"
  shows "commitRunE U E model False =
           (fst (confirm U E (TrimSpace U a)),
            [Exec ''git'' [''diff'', ''--cached''], Print ''Generating commit message...\<newline>''] @
            snd (askAI U E (commitPrompt (truncateDiff d)) model) @
            snd (confirm U E (TrimSpace U a)))"
  using assms by (simp add: commitRunE_def Let_def)

lemma commitRunE_dry:
  "commitRunE U E model True =
     (case Output E ''git'' [''diff'', ''--cached''] of
        Inl err \<Rightarrow> (Some (Wrap ''git diff failed'' err), [Exec ''git'' [''diff'', ''--cached'']])
      | Inr d \<Rightarrow>
          if d = [] then (Some (Errorf ''no staged changes''), [Exec ''git'' [''diff'', ''--cached'']])
          else (case fst (askAI U E (commitPrompt (truncateDiff d)) model) of
                  Inl err \<Rightarrow>
                    (Some (Wrap ''AI request failed'' err),
                     [Exec ''git'' [''diff'', ''--cached''],
                      Print ''Generating commit message...\<newline>''] @
                     snd (askAI U E (commitPrompt (truncateDiff d)) model))
                | Inr a \<Rightarrow>
                    (None,
                     [Exec ''git'' [''diff'', ''--cached''],
                      Print ''Generating commit message...\<newline>''] @
                     snd (askAI U E (commitPrompt (truncateDiff d)) model) @
                     [Print (''\<newline>Suggested commit message:\<newline>'' @ TrimSpace U a @
                             ''\<newline>'')])))"
  by (simp add: commitRunE_def Let_def split: sum.splits)

text \<open>The concrete machine, evaluated.\<close>

lemma machine_diff:
  "Output (machine (Inr ''diff --git a b'') inst input) ''git'' [''diff'', ''--cached''] =
     Inr ''diff --git a b''"
  by (simp add: machine_def)

lemma machine_answer:
  "fst (askAI lib0 (machine diff [''claude''] input) p []) = Inr ''feat: add parser''"
  by (simp add: machine_def lib0_def askAI_def askClaude_def isASCII_def asciiSpace_def trimRight_def)

lemma machine_stdin:
  "stdin (machine diff inst input) = input" "stdin_end (machine diff inst input) = External ''EOF''"
  "Run (machine diff inst input) name args = None"
  by (simp_all add: machine_def)

text \<open>
  The question of the ask command: the arguments joined by one space, or the scanned lines
  joined by line feeds; for terminated short lines these are all lines of the input; the
  dispatcher is called with the question and the provider gets it as its last argument.
\<close>

lemma question_cases:
  "(args \<noteq> [] \<longrightarrow> question args input = Join args '' '') \<and>
   (args = [] \<longrightarrow> question args input = Join (scanLines input) ''\<newline>'') \<and>
   ((\<forall>l\<in>set ls. CHR 0x0A \<notin> set l \<and> length l < MaxScanTokenSize) \<longrightarrow>
      question [] (concat (map (\<lambda>l. l @ [CHR 0x0A]) ls)) = Join (map dropCR ls) ''\<newline>'') \<and>
   (out_Resolve E = None \<and> TrimSpace U (question args (stdin E)) \<noteq> [] \<longrightarrow>
      prefix ((if args \<noteq> [] then [] else [ReadStdin]) @
              snd (askAI U E (question args (stdin E)) model))
             (snd (askRunE U E args model)) \<and>
      (LookPath E ''claude'' = None \<longrightarrow>
         Exec ''claude'' ([''--print''] @ (if model \<noteq> [] then [''--model'', model] else []) @
                          [question args (stdin E)])
           \<in> set (snd (askRunE U E args model))) \<and>
      (LookPath E ''claude'' \<noteq> None \<and> LookPath E ''codex'' = None \<longrightarrow>
         Exec ''codex'' ([''ask''] @ (if model \<noteq> [] then [''--model'', model] else []) @
                         [question args (stdin E)])
           \<in> set (snd (askRunE U E args model))))"
proof -
  have 1: "args \<noteq> [] \<longrightarrow> question args input = Join args '' ''"
    by (simp add: question_def)
  have 2: "args = [] \<longrightarrow> question args input = Join (scanLines input) ''\<newline>''"
    by (simp add: question_def)
  have 3: "(\<forall>l\<in>set ls. CHR 0x0A \<notin> set l \<and> length l < MaxScanTokenSize) \<longrightarrow>
      question [] (concat (map (\<lambda>l. l @ [CHR 0x0A]) ls)) = Join (map dropCR ls) ''\<newline>''"
    by (simp add: question_def scanLines_terminated)
  have 4: "out_Resolve E = None \<and> TrimSpace U (question args (stdin E)) \<noteq> [] \<longrightarrow>
      snd (askRunE U E args model) =
        (if args \<noteq> [] then [] else [ReadStdin]) @ snd (askAI U E (question args (stdin E)) model) @
        (case fst (askAI U E (question args (stdin E)) model) of
           Inl err \<Rightarrow> []
         | Inr response \<Rightarrow>
             if out_IsJSON E
             then [WriteJSON [(''question'', question args (stdin E)), (''response'', response)]]
             else [Print (response @ ''\<newline>'')])"
    by (simp add: askRunE_def Let_def split: sum.splits)
  have 5: "out_Resolve E = None \<and> TrimSpace U (question args (stdin E)) \<noteq> [] \<longrightarrow>
      prefix ((if args \<noteq> [] then [] else [ReadStdin]) @
              snd (askAI U E (question args (stdin E)) model))
             (snd (askRunE U E args model)) \<and>
      (LookPath E ''claude'' = None \<longrightarrow>
         Exec ''claude'' ([''--print''] @ (if model \<noteq> [] then [''--model'', model] else []) @
                          [question args (stdin E)])
           \<in> set (snd (askRunE U E args model))) \<and>
      (LookPath E ''claude'' \<noteq> None \<and> LookPath E ''codex'' = None \<longrightarrow>
         Exec ''codex'' ([''ask''] @ (if model \<noteq> [] then [''--model'', model] else []) @
                         [question args (stdin E)])
           \<in> set (snd (askRunE U E args model)))"
    using 4 by (auto simp add: askAI_events)
  show ?thesis using 1 2 3 5 by blast
qed

lemma question_examples:
  "question [''How'', ''do'', ''I'', ''refactor?''] [] = ''How do I refactor?'' \<and>
   question [] ''line1\<newline>line2\<newline>'' = ''line1\<newline>line2'' \<and>
   Exec ''claude'' [''--print'', ''How do I refactor?'']
     \<in> set (snd (askRunE lib0 (machine (Inr []) [''claude''] [])
                   [''How'', ''do'', ''I'', ''refactor?''] []))"
proof -
  have q1: "question [''How'', ''do'', ''I'', ''refactor?''] [] = ''How do I refactor?''"
    using question_cases [of "[''How'', ''do'', ''I'', ''refactor?'']" "[]"] by simp
  have short: "\<forall>l\<in>set [''line1'', ''line2'']. CHR 0x0A \<notin> set l \<and> length l < MaxScanTokenSize"
    by (simp add: MaxScanTokenSize_def)
  have q2: "question [] ''line1\<newline>line2\<newline>'' = ''line1\<newline>line2''"
    using question_cases [of "[]" "[]" "[''line1'', ''line2'']"] short
    by (simp add: dropCR_def)
  have present: "LookPath (machine (Inr []) [''claude''] []) ''claude'' = None"
    "out_Resolve (machine (Inr []) [''claude''] []) = None"
    by (simp_all add: machine_def)
  have nonblank: "TrimSpace lib0 (question [''How'', ''do'', ''I'', ''refactor?'']
                    (stdin (machine (Inr []) [''claude''] []))) \<noteq> []"
    by (simp add: machine_stdin q1 isASCII_def asciiSpace_def trimRight_def)
  have "Exec ''claude'' [''--print'', question [''How'', ''do'', ''I'', ''refactor?'']
                                         (stdin (machine (Inr []) [''claude''] []))]
          \<in> set (snd (askRunE lib0 (machine (Inr []) [''claude''] [])
                       [''How'', ''do'', ''I'', ''refactor?''] []))"
    using question_cases [of "[''How'', ''do'', ''I'', ''refactor?'']" "[]" "[]"
            "machine (Inr []) [''claude''] []" lib0 "[]"]
          present nonblank
    by simp
  then show ?thesis
    using q1 q2 by (simp add: machine_stdin)
qed

lemma long_input_lines: "scanLines long_input = [''first'']"
proof -
  have 1: "\<forall>l\<in>set [''first'']. CHR 0x0A \<notin> set l \<and> length l < MaxScanTokenSize"
    by (simp add: MaxScanTokenSize_def)
  have 2: "CHR 0x0A \<notin> set (replicate 65536 (CHR ''a''))"
    by simp
  have 3: "MaxScanTokenSize \<le> length (replicate 65536 (CHR ''a''))"
    by (simp add: MaxScanTokenSize_def)
  show ?thesis
    using scanLines_too_long [OF 1 2 3, of "''\<newline>last\<newline>''"]
    by (simp add: long_input_def dropCR_def)
qed

section \<open>The claims of the specification\<close>

text \<open>
  C1. When the staged diff is longer than 10,000 characters (bytes of the Go string), the
  text put into the prompt template is its first 10,000 characters followed by the marker
  \<^verbatim>\<open>"\n... (truncated)"\<close>; a diff of at most 10,000 characters goes in unchanged. The prompt
  built from it is the one the provider dispatcher is called with, right after the diff
  was taken and the progress line printed.
\<close>

theorem commit_prompt_truncation:
  assumes "Output E ''git'' [''diff'', ''--cached''] = Inr d" and "d \<noteq> []"
  shows "prefix
           ([Exec ''git'' [''diff'', ''--cached''], Print ''Generating commit message...\<newline>''] @
            snd (askAI U E
                   (commitPrompt (if 10000 < length d
                                  then take 10000 d @ ''\<newline>... (truncated)'' else d))
                   model))
           (snd (commitRunE U E model dryRun))"
  using assms
  by (simp add: commitRunE_def truncateDiff_def Let_def split: sum.splits)

theorem commit_prompt_truncation_witness:
  "prefix
     [Exec ''git'' [''diff'', ''--cached''], Print ''Generating commit message...\<newline>'',
      Probe ''claude'',
      Exec ''claude''
        [''--print'', commitPrompt (replicate 10000 (CHR ''a'') @ ''\<newline>... (truncated)'')]]
     (snd (commitRunE lib0 (machine (Inr (replicate 10001 (CHR ''a''))) [''claude''] []) [] False))"
proof -
  have 1: "Output (machine (Inr (replicate 10001 (CHR ''a''))) [''claude''] []) ''git''
             [''diff'', ''--cached''] = Inr (replicate 10001 (CHR ''a''))"
    by (simp add: machine_def)
  have 2: "replicate 10001 (CHR ''a'') \<noteq> []"
    by simp
  show ?thesis
    using commit_prompt_truncation [OF 1 2, of lib0 "[]" False]
    by (simp add: askAI_events) (simp add: machine_def)
qed

text \<open>
  C2, as amended. When \<^verbatim>\<open>git diff --cached\<close> reports an error (a non-zero exit is one), the
  commit command fails with that error wrapped as \<^verbatim>\<open>git diff failed\<close>; when it succeeds with
  empty output, the command fails with \<^verbatim>\<open>no staged changes\<close>. In both cases the diff
  subprocess is all that ran: no provider is probed or called.
\<close>

theorem diff_failure_or_empty:
  "(Output E ''git'' [''diff'', ''--cached''] = Inl err \<longrightarrow>
      commitRunE U E model dryRun =
        (Some (Wrap ''git diff failed'' err), [Exec ''git'' [''diff'', ''--cached'']])) \<and>
   (Output E ''git'' [''diff'', ''--cached''] = Inr [] \<longrightarrow>
      commitRunE U E model dryRun =
        (Some (Errorf ''no staged changes''), [Exec ''git'' [''diff'', ''--cached'']]))"
  by (simp add: commitRunE_def)

theorem diff_failure_or_empty_witness:
  "commitRunE lib0 (machine (Inl (External ''exit status 128'')) [''claude''] []) [] False =
     (Some (Wrap ''git diff failed'' (External ''exit status 128'')),
      [Exec ''git'' [''diff'', ''--cached'']]) \<and>
   commitRunE lib0 (machine (Inr []) [''claude''] []) [] False =
     (Some (Errorf ''no staged changes''), [Exec ''git'' [''diff'', ''--cached'']])"
  using diff_failure_or_empty [of "machine (Inl (External ''exit status 128'')) [''claude''] []"
          "External ''exit status 128''" lib0 "[]" False]
        diff_failure_or_empty [of "machine (Inr []) [''claude''] []" _ lib0 "[]" False]
  by (simp add: machine_def)

theorem nonzero_exit_counterexample:
  "Output (machine (Inl (External ''exit status 128'')) [''claude''] []) ''git''
     [''diff'', ''--cached''] = Inl (External ''exit status 128'') \<and>
   fst (commitRunE lib0 (machine (Inl (External ''exit status 128'')) [''claude''] []) [] False) \<noteq>
     Some (Errorf ''no staged changes'') \<and>
   map_option error_message
     (fst (commitRunE lib0 (machine (Inl (External ''exit status 128'')) [''claude''] []) [] False)) =
     Some ''git diff failed: exit status 128''"
  by (simp add: commitRunE_def machine_def)

text \<open>
  C3. The dispatcher always probes \<^verbatim>\<open>claude\<close> first. When it is on the path it alone is run,
  whether or not \<^verbatim>\<open>codex\<close> is there too, and \<^verbatim>\<open>codex\<close> is not even probed; \<^verbatim>\<open>codex\<close> is
  probed and run only when \<^verbatim>\<open>claude\<close> is absent.
\<close>

theorem provider_priority:
  "hd (snd (askAI U E p m)) = Probe ''claude'' \<and>
   (LookPath E ''claude'' = None \<longrightarrow>
      fst (askAI U E p m) = fst (askClaude U E p m) \<and>
      snd (askAI U E p m) =
        [Probe ''claude'',
         Exec ''claude'' ([''--print''] @ (if m \<noteq> [] then [''--model'', m] else []) @ [p])]) \<and>
   (LookPath E ''claude'' \<noteq> None \<and> LookPath E ''codex'' = None \<longrightarrow>
      fst (askAI U E p m) = fst (askCodex U E p m) \<and>
      snd (askAI U E p m) =
        [Probe ''claude'', Probe ''codex'',
         Exec ''codex'' ([''ask''] @ (if m \<noteq> [] then [''--model'', m] else []) @ [p])]) \<and>
   ((\<exists>args. Exec ''codex'' args \<in> set (snd (askAI U E p m))) \<longrightarrow> LookPath E ''claude'' \<noteq> None)"
  by (simp add: askAI_events) (simp add: askAI_def)

theorem provider_priority_witness:
  "snd (askAI lib0 (machine (Inr []) [''claude'', ''codex''] []) ''hi'' []) =
     [Probe ''claude'', Exec ''claude'' [''--print'', ''hi'']] \<and>
   snd (askAI lib0 (machine (Inr []) [''codex''] []) ''hi'' ''o3'') =
     [Probe ''claude'', Probe ''codex'', Exec ''codex'' [''ask'', ''--model'', ''o3'', ''hi'']]"
proof -
  have both: "LookPath (machine (Inr []) [''claude'', ''codex''] []) ''claude'' = None"
    by (simp add: machine_def)
  have second: "LookPath (machine (Inr []) [''codex''] []) ''claude'' \<noteq> None"
    "LookPath (machine (Inr []) [''codex''] []) ''codex'' = None"
    by (simp_all add: machine_def)
  show ?thesis
    using provider_priority [of lib0 "machine (Inr []) [''claude'', ''codex''] []" "''hi''" "[]"]
          provider_priority [of lib0 "machine (Inr []) [''codex''] []" "''hi''" "''o3''"]
          both second
    by simp
qed

text \<open>
  C4. When neither executable is on the path, the dispatcher returns an error whose message
  names both \<^verbatim>\<open>claude\<close> and \<^verbatim>\<open>codex\<close>, and it has only probed: no subprocess was run.
\<close>

theorem no_provider_available:
  assumes "LookPath E ''claude'' \<noteq> None" and "LookPath E ''codex'' \<noteq> None"
  shows "askAI U E p m =
           (Inl (Errorf ''no AI provider available (install claude or codex CLI)''),
            [Probe ''claude'', Probe ''codex'']) \<and>
         (\<exists>err. fst (askAI U E p m) = Inl err \<and>
                sublist ''claude'' (error_message err) \<and> sublist ''codex'' (error_message err)) \<and>
         (\<forall>name args. Exec name args \<notin> set (snd (askAI U E p m)))"
proof -
  have 1: "askAI U E p m =
           (Inl (Errorf ''no AI provider available (install claude or codex CLI)''),
            [Probe ''claude'', Probe ''codex''])"
    using assms by (auto simp add: askAI_def)
  have 2: "sublist ''claude'' ''no AI provider available (install claude or codex CLI)''"
    by code_simp
  have 3: "sublist ''codex'' ''no AI provider available (install claude or codex CLI)''"
    by code_simp
  show ?thesis using 2 3 by (simp add: 1)
qed

theorem no_provider_available_witness:
  "askAI lib0 (machine (Inr []) [] []) ''hi'' [] =
     (Inl (Errorf ''no AI provider available (install claude or codex CLI)''),
      [Probe ''claude'', Probe ''codex''])"
proof -
  have absent: "LookPath (machine (Inr []) [] []) ''claude'' \<noteq> None"
    "LookPath (machine (Inr []) [] []) ''codex'' \<noteq> None"
    by (simp_all add: machine_def)
  show ?thesis
    using no_provider_available [OF absent, of lib0 "''hi''" "[]"] by simp
qed

text \<open>
  C5, as amended. Without \<^verbatim>\<open>--dry-run\<close>, once a message has been generated, the line read
  from standard input is lower-cased and trimmed of surrounding white space (which removes
  the line terminator). When the result is empty, \<^verbatim>\<open>y\<close> or \<^verbatim>\<open>yes\<close>, \<^verbatim>\<open>git commit -m\<close> is run
  with the generated message and its failure is the command's; any other result cancels:
  the command returns no error and the only \<^verbatim>\<open>git\<close> subprocess was the diff.
\<close>

theorem confirmation_decides:
  assumes "Output E ''git'' [''diff'', ''--cached''] = Inr d" and "d \<noteq> []"
    and "fst (askAI U E (commitPrompt (truncateDiff d)) model) = Inr a"
    and "r = TrimSpace U (ToLower U (fst (ReadString (CHR 0x0A) (stdin E) (stdin_end E))))"
  shows "(r = [] \<or> r = ''y'' \<or> r = ''yes'' \<longrightarrow>
            last (snd (commitRunE U E model False)) = Exec ''git'' [''commit'', ''-m'', TrimSpace U a] \<and>
            fst (commitRunE U E model False) =
              map_option (Wrap ''git commit failed'') (Run E ''git'' [''commit'', ''-m'', TrimSpace U a])) \<and>
         (\<not> (r = [] \<or> r = ''y'' \<or> r = ''yes'') \<longrightarrow>
            fst (commitRunE U E model False) = None \<and>
            last (snd (commitRunE U E model False)) = Print ''Commit cancelled.\<newline>'' \<and>
            (\<forall>args. Exec ''git'' args \<in> set (snd (commitRunE U E model False)) \<longrightarrow>
                    args = [''diff'', ''--cached'']))"
  using assms(4) askAI_no_git [of _ U E "commitPrompt (truncateDiff d)" model]
  by (auto simp add: commitRunE_interactive [OF assms(1-3)] confirm_result Let_def)

theorem confirmation_decides_witness:
  "last (snd (commitRunE lib0 (machine (Inr ''diff --git a b'') [''claude''] ''YES\<newline>'') [] False)) =
     Exec ''git'' [''commit'', ''-m'', ''feat: add parser''] \<and>
   fst (commitRunE lib0 (machine (Inr ''diff --git a b'') [''claude''] ''n\<newline>'') [] False) = None \<and>
   last (snd (commitRunE lib0 (machine (Inr ''diff --git a b'') [''claude''] ''n\<newline>'') [] False)) =
     Print ''Commit cancelled.\<newline>''"
proof -
  have yes: "TrimSpace lib0 (ToLower lib0 ''YES\<newline>'') = ''yes''"
    by code_simp
  have no: "TrimSpace lib0 (ToLower lib0 ''n\<newline>'') = ''n''"
    by code_simp
  have 1: "''yes'' = TrimSpace lib0 (ToLower lib0 (fst (ReadString (CHR 0x0A)
             (stdin (machine (Inr ''diff --git a b'') [''claude''] ''YES\<newline>''))
             (stdin_end (machine (Inr ''diff --git a b'') [''claude''] ''YES\<newline>'')))))"
    by (simp add: machine_stdin yes)
  have 2: "''n'' = TrimSpace lib0 (ToLower lib0 (fst (ReadString (CHR 0x0A)
             (stdin (machine (Inr ''diff --git a b'') [''claude''] ''n\<newline>''))
             (stdin_end (machine (Inr ''diff --git a b'') [''claude''] ''n\<newline>'')))))"
    by (simp add: machine_stdin no)
  have 3: "''diff --git a b'' \<noteq> []"
    by simp
  show ?thesis
    using confirmation_decides [OF machine_diff 3 machine_answer 1]
          confirmation_decides [OF machine_diff 3 machine_answer 2]
    by (simp add: isASCII_def asciiSpace_def trimRight_def)
qed

theorem leading_space_counterexample:
  "fst (ReadString (CHR 0x0A) '' y\<newline>'' (External ''EOF'')) = '' y\<newline>'' \<and>
   ToLower lib0 '' y\<newline>'' = '' y\<newline>'' \<and>
   '' y\<newline>'' \<noteq> [] \<and> '' y\<newline>'' \<noteq> ''y'' \<and> '' y\<newline>'' \<noteq> ''yes'' \<and>
   ToLower lib0 '' y'' = '' y'' \<and>
   '' y'' \<noteq> [] \<and> '' y'' \<noteq> ''y'' \<and> '' y'' \<noteq> ''yes'' \<and>
   last (snd (commitRunE lib0 (machine (Inr ''diff --git a b'') [''claude''] '' y\<newline>'') [] False)) =
     Exec ''git'' [''commit'', ''-m'', ''feat: add parser'']"
proof -
  have low: "ToLower lib0 '' y\<newline>'' = '' y\<newline>''" "ToLower lib0 '' y'' = '' y''"
    by (simp_all add: ToLower_def isASCII_def isUpper_def)
  have trim: "TrimSpace lib0 '' y\<newline>'' = ''y''"
    by (simp add: isASCII_def asciiSpace_def trimRight_def)
  have 3: "''diff --git a b'' \<noteq> []"
    by simp
  have "last (snd (commitRunE lib0 (machine (Inr ''diff --git a b'') [''claude''] '' y\<newline>'') [] False)) =
     Exec ''git'' [''commit'', ''-m'', ''feat: add parser'']"
    by (simp add: commitRunE_interactive [OF machine_diff 3 machine_answer] confirm_result
          machine_stdin low trim isASCII_def asciiSpace_def trimRight_def)
  then show ?thesis
    using low by simp
qed

text \<open>
  C6. With \<^verbatim>\<open>--dry-run\<close>, no \<^verbatim>\<open>git\<close> subprocess but the diff is ever run, standard input is
  not read and its content changes nothing; when a message was generated the command
  ends without error on printing it.
\<close>

theorem dry_run_never_commits:
  "(\<forall>args. Exec ''git'' args \<in> set (snd (commitRunE U E model True)) \<longrightarrow>
           args = [''diff'', ''--cached'']) \<and>
   ReadStdin \<notin> set (snd (commitRunE U E model True)) \<and>
   commitRunE U (E\<lparr>stdin := s, stdin_end := e\<rparr>) model True = commitRunE U E model True \<and>
   (\<forall>d a. Output E ''git'' [''diff'', ''--cached''] = Inr d \<and> d \<noteq> [] \<and>
          fst (askAI U E (commitPrompt (truncateDiff d)) model) = Inr a \<longrightarrow>
          fst (commitRunE U E model True) = None \<and>
          last (snd (commitRunE U E model True)) =
            Print (''\<newline>Suggested commit message:\<newline>'' @ TrimSpace U a @ ''\<newline>''))"
proof -
  have 1: "\<forall>args. Exec ''git'' args \<in> set (snd (commitRunE U E model True)) \<longrightarrow>
             args = [''diff'', ''--cached'']"
    by (auto simp add: commitRunE_dry askAI_no_git split: sum.splits)
  have 2: "ReadStdin \<notin> set (snd (commitRunE U E model True))"
    by (auto simp add: commitRunE_dry askAI_no_read split: sum.splits)
  have 3: "commitRunE U (E\<lparr>stdin := s, stdin_end := e\<rparr>) model True = commitRunE U E model True"
    unfolding commitRunE_dry askAI_stdin by simp
  have 4: "\<forall>d a. Output E ''git'' [''diff'', ''--cached''] = Inr d \<and> d \<noteq> [] \<and>
          fst (askAI U E (commitPrompt (truncateDiff d)) model) = Inr a \<longrightarrow>
          fst (commitRunE U E model True) = None \<and>
          last (snd (commitRunE U E model True)) =
            Print (''\<newline>Suggested commit message:\<newline>'' @ TrimSpace U a @ ''\<newline>'')"
    by (simp add: commitRunE_dry)
  show ?thesis using 1 2 3 4 by blast
qed

theorem dry_run_never_commits_witness:
  "fst (commitRunE lib0 (machine (Inr ''diff --git a b'') [''claude''] ''y\<newline>'') [] True) = None \<and>
   last (snd (commitRunE lib0 (machine (Inr ''diff --git a b'') [''claude''] ''y\<newline>'') [] True)) =
     Print ''\<newline>Suggested commit message:\<newline>feat: add parser\<newline>'' \<and>
   ReadStdin \<notin> set (snd (commitRunE lib0 (machine (Inr ''diff --git a b'') [''claude''] ''y\<newline>'') [] True)) \<and>
   Exec ''git'' [''commit'', ''-m'', ''feat: add parser'']
     \<notin> set (snd (commitRunE lib0 (machine (Inr ''diff --git a b'') [''claude''] ''y\<newline>'') [] True))"
proof -
  have 3: "''diff --git a b'' \<noteq> []"
    by simp
  have 4: "truncateDiff ''diff --git a b'' = ''diff --git a b''"
    by (simp add: truncateDiff_def)
  show ?thesis
    using dry_run_never_commits [of lib0 "machine (Inr ''diff --git a b'') [''claude''] ''y\<newline>''" "[]"]
          machine_diff [of "[''claude'']" "''y\<newline>''"] 3
          machine_answer [of "Inr ''diff --git a b''" "''y\<newline>''" "commitPrompt (truncateDiff ''diff --git a b'')"]
    by (auto simp add: isASCII_def asciiSpace_def trimRight_def)
qed

text \<open>
  C7. With arguments the question is the arguments joined by one space; without, it is
  meant to be all lines of standard input joined by line feeds, and it is what the
  provider receives. The code breaks this on a long line. On \<open>long_input\<close> the scanner stops
  at the second line with \<^verbatim>\<open>ErrTooLong\<close>, which \<^verbatim>\<open>newAskCmd\<close> never reads
  (\<^verbatim>\<open>scanner.Err()\<close> is not called): the question is the first line alone and not the three
  lines joined, and the command hands it to the provider and ends without error.
\<close>

theorem long_line_drops_input:
  "question [] long_input = ''first'' \<and>
   question [] long_input \<noteq> Join [''first'', replicate 65536 (CHR ''a''), ''last''] ''\<newline>'' \<and>
   askRunE lib0 (machine (Inr []) [''claude''] long_input) [] [] =
     (None, [ReadStdin, Probe ''claude'', Exec ''claude'' [''--print'', ''first''],
             Print ''feat: add parser\<newline>''])"
proof -
  have q: "question [] long_input = ''first''"
    by (simp add: question_def long_input_lines)
  have env: "out_Resolve (machine (Inr []) [''claude''] long_input) = None"
    "out_IsJSON (machine (Inr []) [''claude''] long_input) = False"
    "LookPath (machine (Inr []) [''claude''] long_input) ''claude'' = None"
    by (simp_all add: machine_def)
  have run: "askRunE lib0 (machine (Inr []) [''claude''] long_input) [] [] =
     (None, [ReadStdin, Probe ''claude'', Exec ''claude'' [''--print'', ''first''],
             Print ''feat: add parser\<newline>''])"
    by (simp add: askRunE_def Let_def machine_stdin q machine_answer askAI_events env
          isASCII_def asciiSpace_def trimRight_def)
  show ?thesis
    using q run by simp
qed

text \<open>
  C8. When the question is empty or white space only (\<^verbatim>\<open>strings.TrimSpace\<close> leaves nothing of
  it; for a question made of ASCII white space that is always so), the ask command fails
  with an error, \<^verbatim>\<open>no question provided\<close> unless the output options were already
  rejected, and no provider is probed or run.
\<close>

theorem blank_question_fails:
  assumes "TrimSpace U (question args (stdin E)) = [] \<or>
           (\<forall>c\<in>set (question args (stdin E)). asciiSpace c)"
  shows "fst (askRunE U E args model) \<noteq> None \<and>
         (out_Resolve E = None \<longrightarrow>
            fst (askRunE U E args model) = Some (Errorf ''no question provided'')) \<and>
         (\<forall>name. Probe name \<notin> set (snd (askRunE U E args model))) \<and>
         (\<forall>name as. Exec name as \<notin> set (snd (askRunE U E args model)))"
proof -
  have "TrimSpace U (question args (stdin E)) = []"
    using assms TrimSpace_all_space by blast
  then show ?thesis
    by (cases "args = []") (simp_all add: askRunE_def Let_def split: option.splits)
qed

theorem blank_question_fails_witness:
  "question [''  '', [CHR 0x09]] ''ignored'' = [CHR 0x20, CHR 0x20, CHR 0x20, CHR 0x09] \<and>
   fst (askRunE lib0 (machine (Inr []) [''claude''] ''ignored'') [''  '', [CHR 0x09]] []) =
     Some (Errorf ''no question provided'') \<and>
   Probe ''claude'' \<notin> set (snd (askRunE lib0 (machine (Inr []) [''claude''] ''ignored'')
                               [''  '', [CHR 0x09]] [])) \<and>
   Exec ''claude'' [''--print'', [CHR 0x20, CHR 0x20, CHR 0x20, CHR 0x09]]
     \<notin> set (snd (askRunE lib0 (machine (Inr []) [''claude''] ''ignored'') [''  '', [CHR 0x09]] []))"
proof -
  have q: "question [''  '', [CHR 0x09]] ''ignored'' = [CHR 0x20, CHR 0x20, CHR 0x20, CHR 0x09]"
    by (simp add: question_def)
  have blank: "TrimSpace lib0 (question [''  '', [CHR 0x09]]
                 (stdin (machine (Inr []) [''claude''] ''ignored''))) = [] \<or>
               (\<forall>c\<in>set (question [''  '', [CHR 0x09]]
                 (stdin (machine (Inr []) [''claude''] ''ignored''))). asciiSpace c)"
    by (simp add: machine_stdin q asciiSpace_def)
  have ok: "out_Resolve (machine (Inr []) [''claude''] ''ignored'') = None"
    by (simp add: machine_def)
  show ?thesis
    using blank_question_fails [OF blank, of "[]"] ok q by simp
qed

text \<open>
  C9. When the user declines the generated message (the normalised response is neither
  empty nor \<^verbatim>\<open>y\<close> nor \<^verbatim>\<open>yes\<close>), the commit command returns no error, so the process exits
  with status zero, after printing the cancellation; \<^verbatim>\<open>git commit\<close> is not run.
\<close>

theorem cancellation_is_success:
  assumes "Output E ''git'' [''diff'', ''--cached''] = Inr d" and "d \<noteq> []"
    and "fst (askAI U E (commitPrompt (truncateDiff d)) model) = Inr a"
    and "r = TrimSpace U (ToLower U (fst (ReadString (CHR 0x0A) (stdin E) (stdin_end E))))"
    and "r \<noteq> []" and "r \<noteq> ''y''" and "r \<noteq> ''yes''"
  shows "fst (commitRunE U E model False) = None \<and>
         exit_status (fst (commitRunE U E model False)) = 0 \<and>
         last (snd (commitRunE U E model False)) = Print ''Commit cancelled.\<newline>'' \<and>
         (\<forall>m. Exec ''git'' [''commit'', ''-m'', m] \<notin> set (snd (commitRunE U E model False)))"
  using assms(4-7) askAI_no_git [of _ U E "commitPrompt (truncateDiff d)" model]
  by (auto simp add: commitRunE_interactive [OF assms(1-3)] confirm_result Let_def exit_status_def)

theorem cancellation_is_success_witness:
  "fst (commitRunE lib0 (machine (Inr ''diff --git a b'') [''claude''] ''n\<newline>'') [] False) = None \<and>
   exit_status (fst (commitRunE lib0 (machine (Inr ''diff --git a b'') [''claude''] ''n\<newline>'') [] False)) = 0 \<and>
   Exec ''git'' [''commit'', ''-m'', ''feat: add parser'']
     \<notin> set (snd (commitRunE lib0 (machine (Inr ''diff --git a b'') [''claude''] ''n\<newline>'') [] False))"
proof -
  have no: "TrimSpace lib0 (ToLower lib0 ''n\<newline>'') = ''n''"
    by code_simp
  have 2: "''n'' = TrimSpace lib0 (ToLower lib0 (fst (ReadString (CHR 0x0A)
             (stdin (machine (Inr ''diff --git a b'') [''claude''] ''n\<newline>''))
             (stdin_end (machine (Inr ''diff --git a b'') [''claude''] ''n\<newline>'')))))"
    by (simp add: machine_stdin no)
  have 3: "''diff --git a b'' \<noteq> []"
    by simp
  have 5: "''n'' \<noteq> []" "''n'' \<noteq> ''y''" "''n'' \<noteq> ''yes''"
    by simp_all
  show ?thesis
    using cancellation_is_success [OF machine_diff 3 machine_answer 2 5]
    by (simp add: exit_status_def)
qed

text \<open>
  C10. When reading the confirmation ends in an error (end of file included) before a line
  feed, the error is dropped and the bytes read so far are the response: they decide
  between commit and cancellation as a full line would, and the command never fails
  with the read error. With standard input at end of file from the start the response
  is empty and \<^verbatim>\<open>git commit\<close> is run.
\<close>

theorem read_error_ignored:
  assumes "Output E ''git'' [''diff'', ''--cached''] = Inr d" and "d \<noteq> []"
    and "fst (askAI U E (commitPrompt (truncateDiff d)) model) = Inr a"
    and "snd (ReadString (CHR 0x0A) (stdin E) (stdin_end E)) \<noteq> None"
    and "r = TrimSpace U (ToLower U (stdin E))"
  shows "fst (ReadString (CHR 0x0A) (stdin E) (stdin_end E)) = stdin E \<and>
         fst (commitRunE U E model False) =
           (if r = [] \<or> r = ''y'' \<or> r = ''yes''
            then map_option (Wrap ''git commit failed'') (Run E ''git'' [''commit'', ''-m'', TrimSpace U a])
            else None) \<and>
         last (snd (commitRunE U E model False)) =
           (if r = [] \<or> r = ''y'' \<or> r = ''yes''
            then Exec ''git'' [''commit'', ''-m'', TrimSpace U a]
            else Print ''Commit cancelled.\<newline>'') \<and>
         (stdin E = [] \<longrightarrow>
            last (snd (commitRunE U E model False)) = Exec ''git'' [''commit'', ''-m'', TrimSpace U a])"
proof -
  have rd: "ReadString (CHR 0x0A) (stdin E) (stdin_end E) = (stdin E, Some (stdin_end E))"
    using assms(4) by (rule ReadString_error)
  have low: "ToLower U [] = []"
    by (simp add: ToLower_def)
  show ?thesis
    using assms(5) low
    by (auto simp add: commitRunE_interactive [OF assms(1-3)] confirm_result rd Let_def)
qed

theorem read_error_ignored_witness:
  "last (snd (commitRunE lib0 (machine (Inr ''diff --git a b'') [''claude''] []) [] False)) =
     Exec ''git'' [''commit'', ''-m'', ''feat: add parser''] \<and>
   fst (commitRunE lib0 (machine (Inr ''diff --git a b'') [''claude''] []) [] False) = None \<and>
   last (snd (commitRunE lib0 (machine (Inr ''diff --git a b'') [''claude''] ''No'') [] False)) =
     Print ''Commit cancelled.\<newline>''"
proof -
  have 3: "''diff --git a b'' \<noteq> []"
    by simp
  have eof: "snd (ReadString (CHR 0x0A) (stdin (machine (Inr ''diff --git a b'') [''claude''] []))
               (stdin_end (machine (Inr ''diff --git a b'') [''claude''] []))) \<noteq> None"
    by (simp add: machine_stdin)
  have eof2: "snd (ReadString (CHR 0x0A) (stdin (machine (Inr ''diff --git a b'') [''claude''] ''No''))
               (stdin_end (machine (Inr ''diff --git a b'') [''claude''] ''No''))) \<noteq> None"
    by (simp add: machine_stdin)
  have no: "TrimSpace lib0 (ToLower lib0 ''No'') = ''no''"
    by code_simp
  have empty: "TrimSpace lib0 (ToLower lib0 []) = []"
    by (simp add: ToLower_def)
  show ?thesis
    using read_error_ignored [OF machine_diff 3 machine_answer eof refl]
          read_error_ignored [OF machine_diff 3 machine_answer eof2 refl]
    by (simp add: machine_stdin no empty isASCII_def asciiSpace_def trimRight_def)
qed

end
